theory Spec2Isabelle
  imports Complex_Main "HOL-Library.Word"
begin

section \<open>Numbers and errors\<close>

text \<open>
  The metrics and the schedulers compute on floating-point arrays of the array library.
  The model computes the values in exact real arithmetic: a number is a finite real or
  one of the special values of the library's arithmetic (the two infinities and
  not-a-number), which division and the square root produce instead of raising. The
  rounding of values, overflow and the sign of zero are not modelled. The one rounded
  value that decides how the program branches, the quotient \<^verbatim>\<open>bin / dt\<close>, is a parameter
  of the model, and the counters of the schedulers are 32-bit integers that wrap.
\<close>

datatype flt = Fin real | PInf | NInf | NaN

datatype pyerr =
    ZeroDivisionError
  | ValueError
  | TypeError
  | OverflowError
  | AssertionError
  | IncompatibleShapes
  | IndexError

fun fsgn :: "flt \<Rightarrow> real" where
  "fsgn (Fin a) = sgn a"
| "fsgn PInf = 1"
| "fsgn NInf = - 1"
| "fsgn NaN = 0"

fun fneg :: "flt \<Rightarrow> flt" where
  "fneg (Fin a) = Fin (- a)"
| "fneg PInf = NInf"
| "fneg NInf = PInf"
| "fneg NaN = NaN"

fun fadd :: "flt \<Rightarrow> flt \<Rightarrow> flt" where
  "fadd (Fin a) (Fin b) = Fin (a + b)"
| "fadd NaN _ = NaN"
| "fadd _ NaN = NaN"
| "fadd PInf NInf = NaN"
| "fadd NInf PInf = NaN"
| "fadd PInf _ = PInf"
| "fadd _ PInf = PInf"
| "fadd NInf _ = NInf"
| "fadd _ NInf = NInf"

definition fsub :: "flt \<Rightarrow> flt \<Rightarrow> flt" where
  "fsub a b = fadd a (fneg b)"

fun fmul :: "flt \<Rightarrow> flt \<Rightarrow> flt" where
  "fmul (Fin a) (Fin b) = Fin (a * b)"
| "fmul NaN _ = NaN"
| "fmul _ NaN = NaN"
| "fmul a b =
     (if fsgn a * fsgn b = 0 then NaN else if 0 < fsgn a * fsgn b then PInf else NInf)"

fun fdiv :: "flt \<Rightarrow> flt \<Rightarrow> flt" where
  "fdiv (Fin a) (Fin b) =
     (if b \<noteq> 0 then Fin (a / b)
      else if a = 0 then NaN else if 0 < a then PInf else NInf)"
| "fdiv NaN _ = NaN"
| "fdiv _ NaN = NaN"
| "fdiv (Fin a) _ = Fin 0"
| "fdiv PInf (Fin b) = (if 0 \<le> b then PInf else NInf)"
| "fdiv NInf (Fin b) = (if 0 \<le> b then NInf else PInf)"
| "fdiv _ _ = NaN"

fun fsqrt :: "flt \<Rightarrow> flt" where
  "fsqrt (Fin a) = (if a < 0 then NaN else Fin (sqrt a))"
| "fsqrt PInf = PInf"
| "fsqrt NInf = NaN"
| "fsqrt NaN = NaN"

text \<open>\<^verbatim>\<open>jnp.sum\<close> and \<^verbatim>\<open>jnp.mean\<close> of a one-dimensional array; the mean of an
  empty array is \<open>0 / 0\<close>, not-a-number.\<close>

fun fsum :: "flt list \<Rightarrow> flt" where
  "fsum [] = Fin 0"
| "fsum (x # xs) = fadd x (fsum xs)"

definition jnp_mean :: "flt list \<Rightarrow> flt" where
  "jnp_mean xs = fdiv (fsum xs) (Fin (real (length xs)))"

text \<open>Sequencing of computations that may raise.\<close>

definition ebind :: "pyerr + 'a \<Rightarrow> ('a \<Rightarrow> pyerr + 'b) \<Rightarrow> pyerr + 'b" where
  "ebind m f = (case m of Inl e \<Rightarrow> Inl e | Inr v \<Rightarrow> f v)"

section \<open>Two- and three-dimensional arrays\<close>

text \<open>A dense array is its shape and its elements by index; only indices inside the
  shape are ever read.\<close>

record array2 =
  rows :: nat
  cols :: nat
  el2 :: "nat \<Rightarrow> nat \<Rightarrow> real"

record array3 =
  d0 :: nat
  d1 :: nat
  d2 :: nat
  el3 :: "nat \<Rightarrow> nat \<Rightarrow> nat \<Rightarrow> real"

definition jnp_zeros :: "nat \<Rightarrow> nat \<Rightarrow> array2" where
  "jnp_zeros r c = \<lparr>rows = r, cols = c, el2 = (\<lambda>_ _. 0)\<rparr>"

text \<open>\<^verbatim>\<open>jnp.append(a, b, axis=0)\<close> for two arrays with the same number of columns.\<close>

definition jnp_append0 :: "array2 \<Rightarrow> array2 \<Rightarrow> array2" where
  "jnp_append0 a b =
     \<lparr>rows = rows a + rows b, cols = cols a,
      el2 = (\<lambda>t i. if t < rows a then el2 a t i else el2 b (t - rows a) i)\<rparr>"

definition transpose2 :: "array2 \<Rightarrow> array2" where
  "transpose2 a = \<lparr>rows = cols a, cols = rows a, el2 = (\<lambda>i t. el2 a t i)\<rparr>"

text \<open>\<^verbatim>\<open>a.reshape((n0, n1, n2))\<close> in row-major order: the element at \<open>(i, b, k)\<close> is the
  element of \<open>a\<close> at flat position \<open>(i * n1 + b) * n2 + k\<close>.\<close>

definition reshape3 :: "array2 \<Rightarrow> nat \<Rightarrow> nat \<Rightarrow> nat \<Rightarrow> array3" where
  "reshape3 a n0 n1 n2 =
     \<lparr>d0 = n0, d1 = n1, d2 = n2,
      el3 = (\<lambda>i b k. let p = (i * n1 + b) * n2 + k in el2 a (p div cols a) (p mod cols a))\<rparr>"

definition sum_axis2 :: "array3 \<Rightarrow> array2" where
  "sum_axis2 s =
     \<lparr>rows = d0 s, cols = d1 s, el2 = (\<lambda>i b. sum_list (map (el3 s i b) [0..<d2 s]))\<rparr>"

text \<open>\<^verbatim>\<open>jnp.asarray(a > 0., dtype=float)\<close>.\<close>

definition positive_as_float :: "array2 \<Rightarrow> array2" where
  "positive_as_float a =
     \<lparr>rows = rows a, cols = cols a, el2 = (\<lambda>i b. if 0 < el2 a i b then 1 else 0)\<rparr>"

text \<open>\<^verbatim>\<open>a[i]\<close>: a row as a one-dimensional array.\<close>

definition row :: "array2 \<Rightarrow> nat \<Rightarrow> real list" where
  "row a i = map (el2 a i) [0..<cols a]"

text \<open>\<^verbatim>\<open>jnp.tril_indices(n, k=-1)\<close>: the index pairs strictly below the diagonal, row by
  row.\<close>

definition tril_indices :: "nat \<Rightarrow> (nat \<times> nat) list" where
  "tril_indices n = concat (map (\<lambda>i. map (\<lambda>j. (i, j)) [0..<i]) [0..<n])"

text \<open>The sequential loop collects one output per input, in order; the vectorised map
  applies the function to every input.\<close>

fun for_loop_acc :: "('a \<Rightarrow> 'b) \<Rightarrow> 'a list \<Rightarrow> 'b list \<Rightarrow> 'b list" where
  "for_loop_acc f [] acc = acc"
| "for_loop_acc f (x # xs) acc = for_loop_acc f xs (acc @ [f x])"

definition for_loop :: "('a \<Rightarrow> 'b) \<Rightarrow> 'a list \<Rightarrow> 'b list" where
  "for_loop f xs = for_loop_acc f xs []"

definition vmap :: "('a \<Rightarrow> 'b) \<Rightarrow> 'a list \<Rightarrow> 'b list" where
  "vmap f xs = map f xs"

section \<open>cross\_correlation\<close>

text \<open>Python's \<^verbatim>\<open>int(x)\<close> on a float truncates towards zero; it raises on an infinity
  and on not-a-number.\<close>

fun py_int :: "flt \<Rightarrow> pyerr + int" where
  "py_int (Fin r) = Inr (if 0 \<le> r then \<lfloor>r\<rfloor> else \<lceil>r\<rceil>)"
| "py_int PInf = Inl OverflowError"
| "py_int NInf = Inl OverflowError"
| "py_int NaN = Inl ValueError"

text \<open>The two closures \<^verbatim>\<open>_f\<close> (loop) and \<^verbatim>\<open>_cc\<close> (vmap) of the source.\<close>

definition loop_f :: "array2 \<Rightarrow> nat \<times> nat \<Rightarrow> flt" where
  "loop_f states = (\<lambda>(i, j).
     let sqrt_ij = fsqrt (Fin (sum_list (row states i) * sum_list (row states j)))
     in if sqrt_ij = Fin 0 then Fin 0
        else fdiv (Fin (sum_list (map2 (*) (row states i) (row states j)))) sqrt_ij)"

definition vmap_cc :: "array2 \<Rightarrow> nat \<times> nat \<Rightarrow> flt" where
  "vmap_cc states = (\<lambda>(i, j).
     let sqrt_ij = fsqrt (Fin (sum_list (row states i) * sum_list (row states j)))
     in if sqrt_ij = Fin 0 then Fin 0
        else fdiv (Fin (sum_list (map2 (*) (row states i) (row states j)))) sqrt_ij)"

text \<open>The binned, binarised activity \<^verbatim>\<open>states\<close>, for a bin of \<open>bin_size \<ge> 1\<close> steps.\<close>

definition binned_states :: "array2 \<Rightarrow> nat \<Rightarrow> array2" where
  "binned_states spikes bin_size =
     (let num_hist = rows spikes;
          num_neu = cols spikes;
          num_bin = nat \<lceil>real num_hist / real bin_size\<rceil>;
          spikes1 = (if num_bin * bin_size \<noteq> num_hist
                     then jnp_append0 spikes (jnp_zeros (num_bin * bin_size - num_hist) num_neu)
                     else spikes);
          states = reshape3 (transpose2 spikes1) num_neu num_bin bin_size
      in positive_as_float (sum_axis2 states))"

text \<open>
  The loop and the map trace the pair function once, whatever the number of pairs, and
  the function reads \<^verbatim>\<open>states[i]\<close>: on an array without rows (a recording without
  neurons) the read is refused.
\<close>

definition traced_row_read :: "array2 \<Rightarrow> pyerr + unit" where
  "traced_row_read states = (if rows states = 0 then Inl IndexError else Inr ())"

text \<open>
  \<open>truediv\<close> is Python's \<^verbatim>\<open>/\<close> on two numbers with a divisor other than zero: the
  quotient rounded to a double, an infinity when it overflows. It is a parameter: the
  bin size is \<^verbatim>\<open>int\<close> of the rounded quotient, which can differ from the floor of the
  exact one (\<^verbatim>\<open>1.0 / 0.1\<close> is \<open>10.0\<close>, the exact quotient of the two doubles is below
  \<open>10\<close>). \<open>env_dt\<close> is the ambient time step that \<^verbatim>\<open>bc.environ.get_dt()\<close> returns. A
  zero \<open>dt\<close> or a zero \<open>bin_size\<close> raises at the Python division; a negative
  \<open>bin_size\<close> asks the array library for an array with a negative dimension, which it
  refuses.
\<close>

definition cross_correlation ::
  "(real \<Rightarrow> real \<Rightarrow> flt) \<Rightarrow> real \<Rightarrow> array2 \<Rightarrow> real \<Rightarrow> real option \<Rightarrow> string \<Rightarrow> pyerr + flt"
  where
  "cross_correlation truediv env_dt spikes bin dt method =
     (let dt1 = (case dt of None \<Rightarrow> env_dt | Some d \<Rightarrow> d) in
      if dt1 = 0 then Inl ZeroDivisionError
      else
        ebind (py_int (truediv bin dt1)) (\<lambda>bin_size.
        if bin_size = 0 then Inl ZeroDivisionError
        else if bin_size < 0 then Inl TypeError
        else
          let states = binned_states spikes (nat bin_size);
              indices = tril_indices (cols spikes)
          in if method = ''loop''
             then ebind (traced_row_read states)
                    (\<lambda>_. Inr (jnp_mean (for_loop (loop_f states) indices)))
             else if method = ''vmap''
             then ebind (traced_row_read states)
                    (\<lambda>_. Inr (jnp_mean (vmap (vmap_cc states) indices)))
             else Inl ValueError))"

text \<open>
  For the concrete instances: the quotients \<open>2 / 1\<close>, \<open>1 / 1\<close>, \<open>1 / 2\<close> and \<open>(1 / 2) / 1\<close>
  are doubles, so Python's \<^verbatim>\<open>/\<close> returns them unrounded; \<open>exact_quotient\<close> stands for
  \<^verbatim>\<open>/\<close> at these operands only.
\<close>

definition exact_quotient :: "real \<Rightarrow> real \<Rightarrow> flt" where
  "exact_quotient a b = Fin (a / b)"

section \<open>weighted\_correlation\<close>

text \<open>
  An array argument of any rank: the function checks \<^verbatim>\<open>ndim\<close> of each argument and
  accepts one-dimensional arrays only.
\<close>

datatype ndarray = Scalar real | Vector "real list" | Matrix "real list list"

text \<open>
  An elementwise operation of the array library on two one-dimensional arrays: equal
  lengths are combined position by position, an array of length one is repeated along
  the other, and any other pair of lengths is refused.
\<close>

definition broadcast2 :: "('a \<Rightarrow> 'b \<Rightarrow> 'c) \<Rightarrow> 'a list \<Rightarrow> 'b list \<Rightarrow> pyerr + 'c list" where
  "broadcast2 f xs ys =
     (if length xs = length ys then Inr (map2 f xs ys)
      else if length xs = 1 then Inr (map (f (hd xs)) ys)
      else if length ys = 1 then Inr (map (\<lambda>x. f x (hd ys)) xs)
      else Inl IncompatibleShapes)"

text \<open>The local functions \<^verbatim>\<open>_weighted_mean\<close> and \<^verbatim>\<open>_weighted_cov\<close>, in the source's
  order of evaluation.\<close>

definition weighted_mean :: "real list \<Rightarrow> real list \<Rightarrow> pyerr + flt" where
  "weighted_mean x w =
     ebind (broadcast2 (*) x w) (\<lambda>xw. Inr (fdiv (Fin (sum_list xw)) (Fin (sum_list w))))"

definition weighted_cov :: "real list \<Rightarrow> real list \<Rightarrow> real list \<Rightarrow> pyerr + flt" where
  "weighted_cov x y w =
     ebind (weighted_mean x w) (\<lambda>mx.
     ebind (broadcast2 fmul (map Fin w) (map (\<lambda>a. fsub (Fin a) mx) x)) (\<lambda>wx.
     ebind (weighted_mean y w) (\<lambda>my.
     ebind (broadcast2 fmul wx (map (\<lambda>b. fsub (Fin b) my) y)) (\<lambda>wxy.
     Inr (fdiv (fsum wxy) (Fin (sum_list w)))))))"

fun weighted_correlation :: "ndarray \<Rightarrow> ndarray \<Rightarrow> ndarray \<Rightarrow> pyerr + flt" where
  "weighted_correlation (Vector x) (Vector y) (Vector w) =
     ebind (weighted_cov x y w) (\<lambda>cxy.
     ebind (weighted_cov x x w) (\<lambda>cxx.
     ebind (weighted_cov y y w) (\<lambda>cyy.
     Inr (fdiv cxy (fsqrt (fmul cxx cyy))))))"
| "weighted_correlation _ _ _ = Inl ValueError"

section \<open>Learning-rate schedulers\<close>

text \<open>
  Further operations of the array library on scalars: \<^verbatim>\<open>jnp.floor\<close>, \<^verbatim>\<open>jnp.cos\<close>,
  \<^verbatim>\<open>jnp.log\<close>, the power \<^verbatim>\<open>**\<close> with its special cases, the comparison \<^verbatim>\<open>>=\<close> and the
  remainder \<^verbatim>\<open>%\<close> with a finite right operand.
\<close>

fun ffloor :: "flt \<Rightarrow> flt" where
  "ffloor (Fin a) = Fin (of_int \<lfloor>a\<rfloor>)"
| "ffloor x = x"

fun fcos :: "flt \<Rightarrow> flt" where
  "fcos (Fin a) = Fin (cos a)"
| "fcos _ = NaN"

fun flog :: "flt \<Rightarrow> flt" where
  "flog (Fin a) = (if 0 < a then Fin (ln a) else if a = 0 then NInf else NaN)"
| "flog PInf = PInf"
| "flog _ = NaN"

definition is_integer :: "real \<Rightarrow> bool" where
  "is_integer b = (of_int \<lfloor>b\<rfloor> = b)"

definition odd_integer :: "real \<Rightarrow> bool" where
  "odd_integer b = (is_integer b \<and> odd \<lfloor>b\<rfloor>)"

fun fpow :: "flt \<Rightarrow> flt \<Rightarrow> flt" where
  "fpow (Fin a) (Fin b) =
     (if b = 0 \<or> a = 1 then Fin 1
      else if 0 < a then Fin (a powr b)
      else if a = 0 then (if 0 < b then Fin 0 else PInf)
      else if is_integer b then Fin ((if odd_integer b then - 1 else 1) * (\<bar>a\<bar> powr b))
      else NaN)"
| "fpow NaN (Fin b) = (if b = 0 then Fin 1 else NaN)"
| "fpow (Fin a) NaN = (if a = 1 then Fin 1 else NaN)"
| "fpow (Fin a) PInf = (if \<bar>a\<bar> < 1 then Fin 0 else if \<bar>a\<bar> = 1 then Fin 1 else PInf)"
| "fpow (Fin a) NInf = (if \<bar>a\<bar> < 1 then PInf else if \<bar>a\<bar> = 1 then Fin 1 else Fin 0)"
| "fpow PInf (Fin b) = (if b = 0 then Fin 1 else if 0 < b then PInf else Fin 0)"
| "fpow NInf (Fin b) =
     (if b = 0 then Fin 1
      else if 0 < b then (if odd_integer b then NInf else PInf)
      else Fin 0)"
| "fpow PInf PInf = PInf"
| "fpow NInf PInf = PInf"
| "fpow PInf NInf = Fin 0"
| "fpow NInf NInf = Fin 0"
| "fpow _ _ = NaN"

fun fge :: "flt \<Rightarrow> real \<Rightarrow> bool" where
  "fge (Fin a) b = (b \<le> a)"
| "fge PInf b = True"
| "fge _ b = False"

fun fmod :: "flt \<Rightarrow> real \<Rightarrow> flt" where
  "fmod (Fin a) b = (if b = 0 then NaN else Fin (a - b * of_int \<lfloor>a / b\<rfloor>))"
| "fmod _ b = NaN"

text \<open>\<^verbatim>\<open>jnp.argmax\<close> of a Boolean array: the first position that holds \<open>True\<close>, and \<open>0\<close>
  when none does.\<close>

definition argmax_bool :: "bool list \<Rightarrow> nat" where
  "argmax_bool bs = (if True \<in> set bs then length (takeWhile Not bs) else 0)"

text \<open>
  The counters are integers of the array library's ambient integer type, which is 32
  bits wide: \<^verbatim>\<open>last_epoch.value + 1\<close> wraps around at the largest value. A Python integer
  that meets an array of the library is converted to that type, and the conversion is
  refused with \<^verbatim>\<open>OverflowError\<close> outside its range.
\<close>

type_synonym int32 = "32 word"

definition int32_of_py :: "int \<Rightarrow> pyerr + int32" where
  "int32_of_py k =
     (if - 2147483648 \<le> k \<and> k \<le> 2147483647 then Inr (word_of_int k) else Inl OverflowError)"

text \<open>
  One constructor per scheduler class, with the fields the class and its base classes
  set: the learning rate, the epoch counter, for the call-based classes the call
  counter, and the parameters as the constructor stores them (Python numbers).
  \<open>milestones\<close> holds the elements of the stored integer array, with the two sentinels
  the constructor adds.
\<close>

datatype scheduler =
    ConstantLR (lr: real) (last_epoch: int32)
  | StepLR (lr: real) (last_epoch: int32) (step_size: int) (gamma: real)
  | MultiStepLR (lr: real) (last_epoch: int32) (milestones: "int list") (gamma: real)
  | CosineAnnealingLR (lr: real) (last_epoch: int32) (T_max: int) (eta_min: real)
  | CosineAnnealingWarmRestarts (lr: real) (last_epoch: int32) (last_call: int32)
      (num_call_per_epoch: real) (T_0: int) (T_mult: int) (eta_min: real)
  | ExponentialLR (lr: real) (last_epoch: int32) (gamma: real)
  | ExponentialDecayLR (lr: real) (last_epoch: int32) (last_call: int32)
      (decay_steps: real) (decay_rate: real)
  | InverseTimeDecayLR (lr: real) (last_epoch: int32) (last_call: int32)
      (decay_steps: real) (decay_rate: real) (staircase: bool)
  | PolynomialDecayLR (lr: real) (last_epoch: int32) (last_call: int32)
      (decay_steps: real) (final_lr: real) (power_p: real)
  | PiecewiseConstantLR (lr: real) (last_epoch: int32) (last_call: int32)
      (boundaries: "real list") (values_p: "real list")

text \<open>\<^verbatim>\<open>step_epoch\<close> is inherited by every class; \<^verbatim>\<open>step_call\<close> is overridden by the
  call-based classes and is \<^verbatim>\<open>pass\<close> in the base class. The sum is the 32-bit one.\<close>

fun step_epoch :: "scheduler \<Rightarrow> scheduler" where
  "step_epoch (ConstantLR l e) = ConstantLR l (e + 1)"
| "step_epoch (StepLR l e ss g) = StepLR l (e + 1) ss g"
| "step_epoch (MultiStepLR l e ms g) = MultiStepLR l (e + 1) ms g"
| "step_epoch (CosineAnnealingLR l e tm em) = CosineAnnealingLR l (e + 1) tm em"
| "step_epoch (CosineAnnealingWarmRestarts l e c n t0 tm em) =
     CosineAnnealingWarmRestarts l (e + 1) c n t0 tm em"
| "step_epoch (ExponentialLR l e g) = ExponentialLR l (e + 1) g"
| "step_epoch (ExponentialDecayLR l e c ds dr) = ExponentialDecayLR l (e + 1) c ds dr"
| "step_epoch (InverseTimeDecayLR l e c ds dr st) = InverseTimeDecayLR l (e + 1) c ds dr st"
| "step_epoch (PolynomialDecayLR l e c ds fl pw) = PolynomialDecayLR l (e + 1) c ds fl pw"
| "step_epoch (PiecewiseConstantLR l e c bs vs) = PiecewiseConstantLR l (e + 1) c bs vs"

fun step_call :: "scheduler \<Rightarrow> scheduler" where
  "step_call (CosineAnnealingWarmRestarts l e c n t0 tm em) =
     CosineAnnealingWarmRestarts l e (c + 1) n t0 tm em"
| "step_call (ExponentialDecayLR l e c ds dr) = ExponentialDecayLR l e (c + 1) ds dr"
| "step_call (InverseTimeDecayLR l e c ds dr st) = InverseTimeDecayLR l e (c + 1) ds dr st"
| "step_call (PolynomialDecayLR l e c ds fl pw) = PolynomialDecayLR l e (c + 1) ds fl pw"
| "step_call (PiecewiseConstantLR l e c bs vs) = PiecewiseConstantLR l e (c + 1) bs vs"
| "step_call s = s"

text \<open>\<^verbatim>\<open>i = (counter + 1) if i is None else i\<close>, read as an integer.\<close>

definition step_or :: "int32 option \<Rightarrow> int32 \<Rightarrow> int" where
  "step_or i d = (case i of None \<Rightarrow> sint d | Some k \<Rightarrow> sint k)"

text \<open>\<^verbatim>\<open>eta_min + (lr - eta_min) * (1 + cos(x)) / 2\<close>, and the helpers of
  \<^verbatim>\<open>CosineAnnealingWarmRestarts\<close>.\<close>

definition cosine_rate :: "real \<Rightarrow> real \<Rightarrow> flt \<Rightarrow> flt" where
  "cosine_rate em l x =
     fadd (Fin em) (fdiv (fmul (Fin (l - em)) (fadd (Fin 1) (fcos x))) (Fin 2))"

definition cond1 :: "int \<Rightarrow> int \<Rightarrow> flt \<Rightarrow> flt \<times> flt" where
  "cond1 t0 tm epoch =
     (if tm = 1 then (fmod epoch (of_int t0), Fin (of_int t0))
      else
        let n = ffloor (fdiv (flog (fadd (fmul (fdiv epoch (Fin (of_int t0))) (Fin (of_int (tm - 1))))
                                         (Fin 1)))
                             (flog (Fin (of_int tm))));
            T_cur = fsub epoch (fdiv (fmul (Fin (of_int t0)) (fsub (fpow (Fin (of_int tm)) n) (Fin 1)))
                                     (Fin (of_int (tm - 1))));
            T_i = fmul (Fin (of_int t0)) (fpow (Fin (of_int tm)) n)
        in (T_cur, T_i))"

definition cond2 :: "int \<Rightarrow> flt \<Rightarrow> flt \<times> flt" where
  "cond2 t0 epoch = (epoch, Fin (of_int t0))"

definition current_epoch :: "real \<Rightarrow> int \<Rightarrow> flt" where
  "current_epoch n i = ffloor (fdiv (Fin (of_int i)) (Fin n))"

text \<open>
  \<^verbatim>\<open>jax.lax.cond\<close> traces both branches and requires their outputs to have the same
  types. \<^verbatim>\<open>_cond2\<close> returns the Python integer \<open>T_0\<close> as its second output; so does
  \<^verbatim>\<open>_cond1\<close> when \<open>T_mult\<close> is \<open>1\<close>, but with any other \<open>T_mult\<close> its second output is a
  floating-point array and the call is refused with \<^verbatim>\<open>TypeError\<close> (after the Python
  integers \<open>T_mult - 1\<close> and \<open>T_mult\<close> have met arrays in \<^verbatim>\<open>_cond1\<close>).
\<close>

definition lax_cond :: "int \<Rightarrow> int \<Rightarrow> flt \<Rightarrow> pyerr + flt \<times> flt" where
  "lax_cond t0 tm epoch =
     (if tm = 1
      then Inr (if fge epoch (of_int t0) then cond1 t0 tm epoch else cond2 t0 epoch)
      else ebind (int32_of_py (tm - 1)) (\<lambda>_. ebind (int32_of_py tm) (\<lambda>_. Inl TypeError)))"

text \<open>
  \<^verbatim>\<open>__call__\<close> of every class, as a function from the scheduler and the optional step to
  the rate and the scheduler after the call. The step is an integer of the array
  library, as the default \<^verbatim>\<open>last_call.value + 1\<close> is, so that the arithmetic on it is
  the library's, which raises nothing; a Python integer parameter that meets it
  (\<open>step_size\<close>, \<open>T_max\<close>, \<open>T_0\<close>, \<open>T_mult\<close>) is converted first. A Python number given
  as the step is combined with the parameters by Python's own arithmetic in some
  classes, which can raise where the library returns an infinity or not-a-number; such
  calls are not described here. In \<^verbatim>\<open>PiecewiseConstantLR\<close> the step meets the array of
  boundaries at once, and a Python integer within 32 bits is compared as the library's
  integer of the same value is. The constructors assert \<open>step_size \<ge> 1\<close> and
  \<open>T_max \<ge> 1\<close> and check \<open>T_0 > 0\<close> and \<open>T_mult \<ge> 1\<close>. Indexing with a computed index
  clamps it to the array; \<open>values\<close> is never empty in a constructed
  \<^verbatim>\<open>PiecewiseConstantLR\<close>.
\<close>

fun call :: "scheduler \<Rightarrow> int32 option \<Rightarrow> (pyerr + flt) \<times> scheduler" where
  "call (ConstantLR l e) i = (Inr (Fin l), ConstantLR l e)"
| "call (StepLR l e ss g) i =
     (let i1 = step_or i (e + 1)
      in (ebind (int32_of_py ss)
            (\<lambda>_. Inr (fmul (Fin l) (fpow (Fin g) (Fin (of_int (i1 div ss)))))),
          StepLR l e ss g))"
| "call (MultiStepLR l e ms g) i =
     (let i1 = step_or i (e + 1);
          conditions = map2 (\<lambda>lo hi. lo \<le> i1 \<and> i1 < hi) (butlast ms) (tl ms);
          p = argmax_bool conditions
      in (Inr (fmul (Fin l) (fpow (Fin g) (Fin (real p)))), MultiStepLR l e ms g))"
| "call (CosineAnnealingLR l e tm em) i =
     (let i1 = step_or i (e + 1)
      in (ebind (int32_of_py tm)
            (\<lambda>_. Inr (cosine_rate em l (fdiv (Fin (pi * of_int i1)) (Fin (of_int tm))))),
          CosineAnnealingLR l e tm em))"
| "call (CosineAnnealingWarmRestarts l e c n t0 tm em) i =
     (let epoch = current_epoch n (step_or i (c + 1))
      in (ebind (int32_of_py t0) (\<lambda>_.
          ebind (lax_cond t0 tm epoch) (\<lambda>(T_cur, T_i).
          Inr (cosine_rate em l (fdiv (fmul (Fin pi) T_cur) T_i)))),
          CosineAnnealingWarmRestarts l e c n t0 tm em))"
| "call (ExponentialLR l e g) i =
     (let i1 = step_or i (e + 1)
      in (Inr (fmul (Fin l) (fpow (Fin g) (Fin (of_int i1)))), ExponentialLR l e g))"
| "call (ExponentialDecayLR l e c ds dr) i =
     (let i1 = step_or i (c + 1)
      in (Inr (fmul (Fin l) (fpow (Fin dr) (fdiv (Fin (of_int i1)) (Fin ds)))),
          ExponentialDecayLR l e c ds dr))"
| "call (InverseTimeDecayLR l e c ds dr st) i =
     (let i1 = step_or i (c + 1)
      in (if st
          then Inr (fdiv (Fin l)
                 (fadd (Fin 1) (fmul (Fin dr) (ffloor (fdiv (Fin (of_int i1)) (Fin ds))))))
          else Inr (fdiv (Fin l) (fadd (Fin 1) (fdiv (Fin (dr * of_int i1)) (Fin ds)))),
          InverseTimeDecayLR l e c ds dr st))"
| "call (PolynomialDecayLR l e c ds fl pw) i =
     (let i1 = step_or i (c + 1);
          i2 = min (of_int i1) ds;
          step_mult = fpow (fsub (Fin 1) (fdiv (Fin i2) (Fin ds))) (Fin pw)
      in (Inr (fadd (fmul step_mult (Fin (l - fl))) (Fin fl)), PolynomialDecayLR l e c ds fl pw))"
| "call (PiecewiseConstantLR l e c bs vs) i =
     (let i1 = step_or i (c + 1);
          k = length (filter (\<lambda>b. b < of_int i1) bs)
      in (if vs = [] then Inl IndexError else Inr (Fin (vs ! min k (length vs - 1))),
          PiecewiseConstantLR l e c bs vs))"

text \<open>
  The constructor of \<^verbatim>\<open>PiecewiseConstantLR\<close> with the assertions of its base classes, in
  the source's order: each base class asserts that its counter is at least \<open>- 1\<close> and
  stores it as an integer of the array library.
\<close>

definition LearningRateScheduler_init :: "int \<Rightarrow> pyerr + int32" where
  "LearningRateScheduler_init le = (if - 1 \<le> le then int32_of_py le else Inl AssertionError)"

definition CallBasedLRScheduler_init :: "int \<Rightarrow> int \<Rightarrow> pyerr + int32 \<times> int32" where
  "CallBasedLRScheduler_init le lc =
     ebind (LearningRateScheduler_init le)
       (\<lambda>e. if - 1 \<le> lc then ebind (int32_of_py lc) (\<lambda>c. Inr (e, c)) else Inl AssertionError)"

definition PiecewiseConstantLR_init :: "ndarray \<Rightarrow> ndarray \<Rightarrow> int \<Rightarrow> int \<Rightarrow> pyerr + scheduler" where
  "PiecewiseConstantLR_init bnds vls le lc =
     ebind (CallBasedLRScheduler_init le lc)
       (\<lambda>(e, c). case (bnds, vls) of
               (Vector bs, Vector vs) \<Rightarrow>
                 if int (length bs) = int (length vs) - 1
                 then Inr (PiecewiseConstantLR 0 e c bs vs)
                 else Inl ValueError
             | _ \<Rightarrow> Inl ValueError)"

section \<open>Specification-level definitions for cross\_correlation\<close>

text \<open>
  The specification's description of the algorithm, written independently of the array
  operations: the spike train of neuron \<open>i\<close> continued by zeros, the number of bins that
  cover the recording, the binarised activity \<open>B[i, t]\<close>, the coherence of a pair, and
  the mean over the pairs \<open>(i, j)\<close> with \<open>j < i\<close>.
\<close>

definition spec_padded :: "array2 \<Rightarrow> nat \<Rightarrow> nat \<Rightarrow> real" where
  "spec_padded S t i = (if t < rows S then el2 S t i else 0)"

definition spec_num_bins :: "array2 \<Rightarrow> nat \<Rightarrow> nat" where
  "spec_num_bins S bs = (rows S + bs - 1) div bs"

definition spec_binned :: "array2 \<Rightarrow> nat \<Rightarrow> nat \<Rightarrow> nat \<Rightarrow> real" where
  "spec_binned S bs i t = (if 0 < (\<Sum>k<bs. spec_padded S (t * bs + k) i) then 1 else 0)"

definition spec_pair_value :: "array2 \<Rightarrow> nat \<Rightarrow> nat \<Rightarrow> nat \<Rightarrow> real" where
  "spec_pair_value S bs i j =
     (let K = spec_num_bins S bs;
          dot = (\<Sum>t<K. spec_binned S bs i t * spec_binned S bs j t);
          norm = sqrt ((\<Sum>t<K. spec_binned S bs i t) * (\<Sum>t<K. spec_binned S bs j t))
      in if norm = 0 then 0 else dot / norm)"

definition spec_pairs :: "nat \<Rightarrow> (nat \<times> nat) set" where
  "spec_pairs N = (SIGMA i:{..<N}. {..<i})"

definition spec_cross_correlation :: "array2 \<Rightarrow> nat \<Rightarrow> flt" where
  "spec_cross_correlation S bs =
     fdiv (Fin (\<Sum>(i, j)\<in>spec_pairs (cols S). spec_pair_value S bs i j))
          (Fin (real (card (spec_pairs (cols S)))))"

text \<open>Relabelling the neurons: column \<open>i\<close> of the result is column \<open>p i\<close> of the input.\<close>

definition permute_neurons :: "(nat \<Rightarrow> nat) \<Rightarrow> array2 \<Rightarrow> array2" where
  "permute_neurons p S = \<lparr>rows = rows S, cols = cols S, el2 = (\<lambda>t i. el2 S t (p i))\<rparr>"

text \<open>A recording of three time steps of two neurons, used for concrete instances.\<close>

definition ex_spikes :: array2 where
  "ex_spikes = \<lparr>rows = 3, cols = 2, el2 = (\<lambda>t i. [[1, 0], [0, 0], [1, 1]] ! t ! i)\<rparr>"

section \<open>Specification-level definitions for weighted\_correlation\<close>

text \<open>The unweighted Pearson correlation coefficient of two series.\<close>

definition pearson :: "real list \<Rightarrow> real list \<Rightarrow> flt" where
  "pearson x y =
     (let mx = sum_list x / real (length x);
          my = sum_list y / real (length y);
          sxy = (\<Sum>(a, b)\<leftarrow>zip x y. (a - mx) * (b - my));
          sxx = (\<Sum>a\<leftarrow>x. (a - mx) * (a - mx));
          syy = (\<Sum>b\<leftarrow>y. (b - my) * (b - my))
      in fdiv (Fin sxy) (fsqrt (Fin (sxx * syy))))"

text \<open>The sum of the products of the deviations from the means.\<close>

definition codev :: "real list \<Rightarrow> real list \<Rightarrow> real" where
  "codev x y =
     (\<Sum>(a, b)\<leftarrow>zip x y. (a - sum_list x / real (length x)) * (b - sum_list y / real (length y)))"

section \<open>Definitions for the scheduler claims\<close>

text \<open>The same scheduler with other counters, and the scheduler of the specification's
  example.\<close>

fun with_counters :: "int32 \<Rightarrow> int32 \<Rightarrow> scheduler \<Rightarrow> scheduler" where
  "with_counters e' c' (ConstantLR l e) = ConstantLR l e'"
| "with_counters e' c' (StepLR l e ss g) = StepLR l e' ss g"
| "with_counters e' c' (MultiStepLR l e ms g) = MultiStepLR l e' ms g"
| "with_counters e' c' (CosineAnnealingLR l e tm em) = CosineAnnealingLR l e' tm em"
| "with_counters e' c' (CosineAnnealingWarmRestarts l e c n t0 tm em) =
     CosineAnnealingWarmRestarts l e' c' n t0 tm em"
| "with_counters e' c' (ExponentialLR l e g) = ExponentialLR l e' g"
| "with_counters e' c' (ExponentialDecayLR l e c ds dr) = ExponentialDecayLR l e' c' ds dr"
| "with_counters e' c' (InverseTimeDecayLR l e c ds dr st) = InverseTimeDecayLR l e' c' ds dr st"
| "with_counters e' c' (PolynomialDecayLR l e c ds fl pw) = PolynomialDecayLR l e' c' ds fl pw"
| "with_counters e' c' (PiecewiseConstantLR l e c bs vs) = PiecewiseConstantLR l e' c' bs vs"

definition ex_piecewise :: scheduler where
  "ex_piecewise = PiecewiseConstantLR 0 (- 1) (- 1) [10, 20] [1 / 10, 1 / 100, 1 / 1000]"

section \<open>Verification\<close>

lemma ebind_Inr [simp]: "ebind (Inr v) f = f v"
  by (simp add: ebind_def)

lemma ebind_Inl [simp]: "ebind (Inl e) f = Inl e"
  by (simp add: ebind_def)

subsection \<open>The two evaluation strategies\<close>

lemma for_loop_acc_map: "for_loop_acc f xs acc = acc @ map f xs"
  by (induction xs arbitrary: acc) simp_all

lemma for_loop_map: "for_loop f xs = map f xs"
  by (simp add: for_loop_def for_loop_acc_map)

lemma loop_f_vmap_cc: "loop_f = vmap_cc"
  by (rule ext) (simp add: loop_f_def vmap_cc_def)

text \<open>
  C3. For every spike matrix and the same \<open>bin\<close> and \<open>dt\<close>, the sequential strategy
  (\<open>method = ''loop''\<close>) and the vectorised strategy (\<open>method = ''vmap''\<close>) of
  \<open>cross_correlation\<close> give the same outcome: the same value in exact arithmetic, or
  the same failure.
\<close>

theorem cross_correlation_loop_eq_vmap:
  "cross_correlation truediv env_dt spikes bin dt ''loop'' =
   cross_correlation truediv env_dt spikes bin dt ''vmap''"
  by (simp add: cross_correlation_def Let_def for_loop_map vmap_def loop_f_vmap_cc
      cong: if_cong)

subsection \<open>The binned activity and the pairwise mean\<close>

lemma num_bin_eq:
  assumes "0 < bs"
  shows "nat \<lceil>real T / real bs\<rceil> = (T + bs - 1) div bs"
proof -
  define q where "q = (T + bs - 1) div bs"
  define r where "r = (T + bs - 1) mod bs"
  have decomp: "T + bs - 1 = q * bs + r" and r: "r < bs"
    using assms by (simp_all add: q_def r_def)
  have up: "T \<le> q * bs" using decomp r by linarith
  have lo: "q * bs < T + bs" using decomp r assms by linarith
  have "\<lceil>real T / real bs\<rceil> = int q"
  proof (rule ceiling_unique)
    have "real (q * bs) < real (T + bs)" using lo by (simp only: of_nat_less_iff)
    then have "(real q - 1) * real bs < real T" by (simp add: algebra_simps)
    then show "of_int (int q) - 1 < real T / real bs"
      using assms by (simp add: pos_less_divide_eq)
    have "real T \<le> real (q * bs)" using up by (simp only: of_nat_le_iff)
    then show "real T / real bs \<le> of_int (int q)"
      using assms by (simp add: pos_divide_le_eq)
  qed
  then show ?thesis by (simp add: q_def)
qed

lemma set_tril: "set (tril_indices N) = spec_pairs N"
  by (auto simp: tril_indices_def spec_pairs_def)

lemma tril_Suc: "tril_indices (Suc n) = tril_indices n @ map (Pair n) [0..<n]"
  by (simp add: tril_indices_def)

lemma distinct_tril: "distinct (tril_indices N)"
proof (induction N)
  case 0
  show ?case by (simp add: tril_indices_def)
next
  case (Suc n)
  have "set (tril_indices n) \<inter> set (map (Pair n) [0..<n]) = {}"
    by (auto simp: set_tril spec_pairs_def)
  moreover have "distinct (map (Pair n) [0..<n])"
    by (simp add: distinct_map inj_on_def)
  ultimately show ?case using Suc by (simp add: tril_Suc del: set_map)
qed

lemma fsum_Fin: "fsum (map Fin xs) = Fin (sum_list xs)"
  by (induction xs) simp_all

lemma sum_list_upt: "sum_list (map f [0..<n]) = (\<Sum>k<n. f k)"
  by (simp add: interv_sum_list_conv_sum_set_nat lessThan_atLeast0)

lemma map2_same: "map2 f (map g xs) (map h xs) = map (\<lambda>x. f (g x) (h x)) xs"
  by (induction xs) simp_all

lemma bin_index_lt:
  fixes K b bs k :: nat
  assumes "b < K" "k < bs"
  shows "b * bs + k < K * bs"
proof -
  have "b * bs + k < b * bs + bs" using assms by simp
  also have "\<dots> = Suc b * bs" by simp
  also have "\<dots> \<le> K * bs" using assms by (intro mult_le_mono1) simp
  finally show ?thesis .
qed

lemma reshape_index:
  fixes i K b bs k :: nat
  assumes "b < K" "k < bs"
  shows "((i * K + b) * bs + k) div (K * bs) = i"
    and "((i * K + b) * bs + k) mod (K * bs) = b * bs + k"
proof -
  have lt: "b * bs + k < K * bs" using assms by (rule bin_index_lt)
  have e: "(i * K + b) * bs + k = i * (K * bs) + (b * bs + k)" by (simp add: algebra_simps)
  have nz: "K * bs \<noteq> 0" using assms by simp
  show "((i * K + b) * bs + k) div (K * bs) = i"
    unfolding e using lt nz by simp
  show "((i * K + b) * bs + k) mod (K * bs) = b * bs + k"
    unfolding e using lt by simp
qed

lemma num_bins_cover:
  fixes T bs :: nat
  assumes "0 < bs"
  shows "T \<le> ((T + bs - 1) div bs) * bs"
proof -
  have "T + bs - 1 = ((T + bs - 1) div bs) * bs + (T + bs - 1) mod bs" by simp
  moreover have "(T + bs - 1) mod bs < bs" using assms by simp
  ultimately show ?thesis by linarith
qed

lemma binned_states_shape:
  assumes "0 < bs"
  shows "rows (binned_states S bs) = cols S" and "cols (binned_states S bs) = spec_num_bins S bs"
  using assms
  by (simp_all add: binned_states_def Let_def positive_as_float_def sum_axis2_def reshape3_def
      num_bin_eq spec_num_bins_def)

lemma binned_states_el:
  assumes bs: "0 < bs" and b: "b < spec_num_bins S bs"
  shows "el2 (binned_states S bs) i b = spec_binned S bs i b"
proof -
  define K where "K = spec_num_bins S bs"
  define spikes1 where "spikes1 =
    (if K * bs \<noteq> rows S then jnp_append0 S (jnp_zeros (K * bs - rows S) (cols S)) else S)"
  have cover: "rows S \<le> K * bs"
    unfolding K_def spec_num_bins_def using bs by (rule num_bins_cover)
  have rows1: "rows spikes1 = K * bs"
    using cover by (simp add: spikes1_def jnp_append0_def jnp_zeros_def)
  have el1: "el2 spikes1 t n = spec_padded S t n" if "t < K * bs" for t n
    using that by (simp add: spikes1_def jnp_append0_def jnp_zeros_def spec_padded_def)
  have K': "nat \<lceil>real (rows S) / real bs\<rceil> = K"
    using bs by (simp add: K_def spec_num_bins_def num_bin_eq)
  have *: "el2 (binned_states S bs) i b =
      (if 0 < sum_list (map (\<lambda>k. el2 spikes1 (((i * K + b) * bs + k) mod (K * bs))
                                           (((i * K + b) * bs + k) div (K * bs))) [0..<bs])
       then 1 else 0)"
  proof -
    have "binned_states S bs =
        positive_as_float (sum_axis2 (reshape3 (transpose2 spikes1) (cols S) K bs))"
      unfolding binned_states_def Let_def K' spikes1_def by (rule refl)
    then show ?thesis
      by (simp add: positive_as_float_def sum_axis2_def reshape3_def transpose2_def rows1 Let_def)
  qed
  have "map (\<lambda>k. el2 spikes1 (((i * K + b) * bs + k) mod (K * bs))
                               (((i * K + b) * bs + k) div (K * bs))) [0..<bs]
      = map (\<lambda>k. spec_padded S (b * bs + k) i) [0..<bs]"
  proof (rule map_cong [OF refl])
    fix k assume "k \<in> set [0..<bs]"
    then have k: "k < bs" by simp
    have bK: "b < K" using b by (simp add: K_def)
    have lt: "b * bs + k < K * bs" using bK k by (rule bin_index_lt)
    show "el2 spikes1 (((i * K + b) * bs + k) mod (K * bs)) (((i * K + b) * bs + k) div (K * bs))
        = spec_padded S (b * bs + k) i"
      by (simp add: reshape_index [OF bK k] el1 [OF lt])
  qed
  then show ?thesis
    by (simp add: * spec_binned_def sum_list_upt)
qed

lemma spec_binned_nonneg: "0 \<le> spec_binned S bs i t"
  by (simp add: spec_binned_def)

lemma row_binned_states:
  assumes "0 < bs"
  shows "row (binned_states S bs) i = map (spec_binned S bs i) [0..<spec_num_bins S bs]"
  unfolding row_def binned_states_shape(2) [OF assms]
  by (rule map_cong [OF refl]) (simp add: binned_states_el [OF assms])

lemma loop_f_binned:
  assumes "0 < bs"
  shows "loop_f (binned_states S bs) (i, j) = Fin (spec_pair_value S bs i j)"
proof -
  let ?K = "spec_num_bins S bs"
  have nn: "0 \<le> (\<Sum>t<?K. spec_binned S bs i t) * (\<Sum>t<?K. spec_binned S bs j t)"
    by (intro mult_nonneg_nonneg sum_nonneg spec_binned_nonneg)
  show ?thesis
    using nn
    by (simp add: loop_f_def row_binned_states [OF assms] sum_list_upt map2_same
        spec_pair_value_def Let_def)
qed

lemma mean_over_pairs:
  "jnp_mean (map (\<lambda>(i, j). Fin (g i j)) (tril_indices N)) =
   fdiv (Fin (\<Sum>(i, j)\<in>spec_pairs N. g i j)) (Fin (real (card (spec_pairs N))))"
proof -
  have "map (\<lambda>(i, j). Fin (g i j)) (tril_indices N) = map Fin (map (\<lambda>(i, j). g i j) (tril_indices N))"
    by (simp add: case_prod_beta comp_def)
  moreover have "sum_list (map (\<lambda>(i, j). g i j) (tril_indices N)) = (\<Sum>(i, j)\<in>spec_pairs N. g i j)"
    using sum_list_distinct_conv_sum_set [OF distinct_tril, of "\<lambda>(i, j). g i j" N]
    by (simp add: set_tril)
  moreover have "length (tril_indices N) = card (spec_pairs N)"
    using distinct_card [OF distinct_tril, of N] by (simp add: set_tril)
  ultimately show ?thesis
    by (simp add: jnp_mean_def fsum_Fin del: map_map)
qed

lemma cross_correlation_value:
  assumes dt: "(case dt of None \<Rightarrow> env_dt | Some d \<Rightarrow> d) = dt1"
    and nz: "dt1 \<noteq> 0"
    and q: "py_int (truediv bin dt1) = Inr k"
    and pos: "0 < k"
    and m: "meth = ''loop'' \<or> meth = ''vmap''"
  shows "cross_correlation truediv env_dt S bin dt meth =
         (if cols S = 0 then Inl IndexError else Inr (spec_cross_correlation S (nat k)))"
proof -
  let ?bs = "nat k"
  have bs: "0 < ?bs" using pos by simp
  have f: "loop_f (binned_states S ?bs) = (\<lambda>(i, j). Fin (spec_pair_value S ?bs i j))"
    by (rule ext) (simp add: case_prod_beta loop_f_binned [OF bs, of S "fst p" "snd p" for p, simplified])
  have r: "traced_row_read (binned_states S ?bs) = (if cols S = 0 then Inl IndexError else Inr ())"
    by (simp add: traced_row_read_def binned_states_shape(1) [OF bs])
  have "cross_correlation truediv env_dt S bin dt meth =
        (if cols S = 0 then Inl IndexError
         else Inr (jnp_mean (map (loop_f (binned_states S ?bs)) (tril_indices (cols S)))))"
    using nz pos m
    by (auto simp: cross_correlation_def dt q r Let_def ebind_def for_loop_map vmap_def
        loop_f_vmap_cc [symmetric])
  then show ?thesis
    by (simp add: f mean_over_pairs spec_cross_correlation_def)
qed

subsection \<open>Relabelling neurons\<close>

lemma sum_pairs_double:
  fixes h :: "nat \<Rightarrow> nat \<Rightarrow> real"
  shows "(\<Sum>(i, j)\<in>spec_pairs N. h i j) = (\<Sum>i<N. \<Sum>j<i. h i j)"
  by (simp add: spec_pairs_def sum.Sigma)

lemma square_sum_split:
  fixes h :: "nat \<Rightarrow> nat \<Rightarrow> real"
  assumes sym: "\<And>i j. h i j = h j i"
  shows "(\<Sum>i<N. \<Sum>j<N. h i j) = 2 * (\<Sum>i<N. \<Sum>j<i. h i j) + (\<Sum>i<N. h i i)"
proof (induction N)
  case 0
  show ?case by simp
next
  case (Suc n)
  have "(\<Sum>i<Suc n. \<Sum>j<Suc n. h i j) = (\<Sum>i<n. \<Sum>j<n. h i j) + (\<Sum>i<n. h i n) + (\<Sum>j<n. h n j) + h n n"
    by (simp add: sum.distrib)
  also have "(\<Sum>i<n. h i n) = (\<Sum>j<n. h n j)"
    by (rule sum.cong [OF refl]) (rule sym)
  finally show ?case
    by (simp add: Suc.IH)
qed

lemma sum_permute:
  fixes f :: "nat \<Rightarrow> real"
  assumes "bij_betw p {..<N} {..<N}"
  shows "(\<Sum>i<N. f (p i)) = (\<Sum>i<N. f i)"
  using sum.reindex_bij_betw [OF assms, of f] .

lemma sum_pairs_permute:
  fixes h :: "nat \<Rightarrow> nat \<Rightarrow> real"
  assumes sym: "\<And>i j. h i j = h j i" and p: "bij_betw p {..<N} {..<N}"
  shows "(\<Sum>(i, j)\<in>spec_pairs N. h (p i) (p j)) = (\<Sum>(i, j)\<in>spec_pairs N. h i j)"
proof -
  let ?h' = "\<lambda>i j. h (p i) (p j)"
  have sq': "(\<Sum>i<N. \<Sum>j<N. ?h' i j) = 2 * (\<Sum>i<N. \<Sum>j<i. ?h' i j) + (\<Sum>i<N. ?h' i i)"
    by (rule square_sum_split) (rule sym)
  have sq: "(\<Sum>i<N. \<Sum>j<N. h i j) = 2 * (\<Sum>i<N. \<Sum>j<i. h i j) + (\<Sum>i<N. h i i)"
    by (rule square_sum_split) (rule sym)
  have "(\<Sum>i<N. \<Sum>j<N. ?h' i j) = (\<Sum>i<N. \<Sum>j<N. h (p i) j)"
    by (rule sum.cong [OF refl]) (rule sum_permute [OF p])
  also have "\<dots> = (\<Sum>i<N. \<Sum>j<N. h i j)"
    by (rule sum_permute [OF p, of "\<lambda>i. \<Sum>j<N. h i j"])
  finally have full: "(\<Sum>i<N. \<Sum>j<N. ?h' i j) = (\<Sum>i<N. \<Sum>j<N. h i j)" .
  have diag: "(\<Sum>i<N. ?h' i i) = (\<Sum>i<N. h i i)"
    by (rule sum_permute [OF p, of "\<lambda>i. h i i"])
  have "(\<Sum>i<N. \<Sum>j<i. ?h' i j) = (\<Sum>i<N. \<Sum>j<i. h i j)"
    using sq sq' full diag by linarith
  then show ?thesis by (simp add: sum_pairs_double)
qed

lemma spec_pair_value_sym: "spec_pair_value S bs i j = spec_pair_value S bs j i"
  by (simp add: spec_pair_value_def Let_def mult.commute)

lemma spec_padded_permute:
  "spec_padded (permute_neurons p S) t i = spec_padded S t (p i)"
  by (simp add: spec_padded_def permute_neurons_def)

lemma spec_num_bins_permute:
  "spec_num_bins (permute_neurons p S) bs = spec_num_bins S bs"
  by (simp add: spec_num_bins_def permute_neurons_def)

lemma spec_binned_permute:
  "spec_binned (permute_neurons p S) bs i t = spec_binned S bs (p i) t"
  by (simp add: spec_binned_def spec_padded_permute)

lemma spec_pair_value_permute:
  "spec_pair_value (permute_neurons p S) bs i j = spec_pair_value S bs (p i) (p j)"
  by (simp add: spec_pair_value_def spec_binned_permute spec_num_bins_permute)

lemma spec_cross_correlation_permute:
  assumes "bij_betw p {..<cols S} {..<cols S}"
  shows "spec_cross_correlation (permute_neurons p S) bs = spec_cross_correlation S bs"
proof -
  have "(\<Sum>(i, j)\<in>spec_pairs (cols S). spec_pair_value S bs (p i) (p j)) =
        (\<Sum>(i, j)\<in>spec_pairs (cols S). spec_pair_value S bs i j)"
    by (rule sum_pairs_permute [OF spec_pair_value_sym assms])
  moreover have "cols (permute_neurons p S) = cols S" by (simp add: permute_neurons_def)
  ultimately show ?thesis
    by (simp add: spec_cross_correlation_def spec_pair_value_permute)
qed

lemma cross_correlation_cases:
  "cross_correlation truediv env_dt S bin dt meth =
     (let dt1 = (case dt of None \<Rightarrow> env_dt | Some d \<Rightarrow> d) in
      if dt1 = 0 then Inl ZeroDivisionError
      else case py_int (truediv bin dt1) of
        Inl err \<Rightarrow> Inl err
      | Inr k \<Rightarrow>
          if k = 0 then Inl ZeroDivisionError
          else if k < 0 then Inl TypeError
          else if meth = ''loop'' \<or> meth = ''vmap''
               then (if cols S = 0 then Inl IndexError
                     else Inr (spec_cross_correlation S (nat k)))
          else Inl ValueError)"
proof -
  define dt1 where "dt1 = (case dt of None \<Rightarrow> env_dt | Some d \<Rightarrow> d)"
  show ?thesis
  proof (cases "dt1 = 0")
    case True
    then show ?thesis by (simp add: cross_correlation_def dt1_def)
  next
    case nz: False
    show ?thesis
    proof (cases "py_int (truediv bin dt1)")
      case (Inl err)
      then show ?thesis
        using nz by (simp add: cross_correlation_def dt1_def [symmetric] Let_def ebind_def)
    next
      case (Inr k)
      show ?thesis
      proof (cases "0 < k \<and> (meth = ''loop'' \<or> meth = ''vmap'')")
        case True
        then show ?thesis
          using nz Inr
            cross_correlation_value [where dt = dt and env_dt = env_dt and ?dt1.0 = dt1
              and bin = bin and meth = meth and S = S and truediv = truediv and k = k]
          by (simp add: dt1_def [symmetric] Let_def)
      next
        case False
        then show ?thesis
          using nz Inr
          by (auto simp: cross_correlation_def dt1_def [symmetric] Let_def ebind_def)
      qed
    qed
  qed
qed

lemma cross_correlation_permute:
  assumes "bij_betw p {..<cols S} {..<cols S}"
  shows "cross_correlation truediv env_dt (permute_neurons p S) bin dt meth =
         cross_correlation truediv env_dt S bin dt meth"
proof -
  have c: "cols (permute_neurons p S) = cols S" by (simp add: permute_neurons_def)
  show ?thesis
    unfolding cross_correlation_cases c spec_cross_correlation_permute [OF assms]
    by (rule refl)
qed

subsection \<open>Claims about cross\_correlation\<close>

lemma py_int_floor: "0 \<le> q \<Longrightarrow> py_int (Fin q) = Inr \<lfloor>q\<rfloor>"
  by simp

text \<open>
  C1 (as amended). Let the floating-point quotient \<^verbatim>\<open>bin / dt\<close> be the finite number
  \<open>q \<ge> 0\<close> (as it is for positive \<open>bin\<close> and \<open>dt\<close> unless it overflows), so that
  \<open>bin_size = \<lfloor>q\<rfloor>\<close>. If \<open>q \<ge> 1\<close> and the spike matrix has at least one neuron column,
  \<open>cross_correlation\<close> with either method returns what the specification describes: the
  time axis is continued by zeros to a multiple of \<open>bin_size\<close>, each bin is summed and
  binarised, every pair \<open>(i, j)\<close> with \<open>j < i\<close> gets \<open>dot / norm\<close> (or \<open>0\<close> when
  \<open>norm = 0\<close>), and the result is the mean over the pairs. If \<open>q \<ge> 1\<close> and the matrix
  has no neuron column, the call fails with \<open>IndexError\<close>. If \<open>q < 1\<close> the bin size is
  \<open>0\<close> and the call fails with a division by zero.
\<close>

theorem cross_correlation_algorithm:
  assumes dt: "(case dt of None \<Rightarrow> env_dt | Some d \<Rightarrow> d) = dt1"
    and nz: "dt1 \<noteq> 0"
    and q: "truediv bin dt1 = Fin q" "0 \<le> q"
    and m: "meth = ''loop'' \<or> meth = ''vmap''"
  shows "(1 \<le> q \<and> 0 < cols S \<longrightarrow>
            cross_correlation truediv env_dt S bin dt meth =
            Inr (spec_cross_correlation S (nat \<lfloor>q\<rfloor>))) \<and>
         (1 \<le> q \<and> cols S = 0 \<longrightarrow>
            cross_correlation truediv env_dt S bin dt meth = Inl IndexError) \<and>
         (q < 1 \<longrightarrow> cross_correlation truediv env_dt S bin dt meth = Inl ZeroDivisionError)"
proof -
  have r: "py_int (truediv bin dt1) = Inr \<lfloor>q\<rfloor>"
    using q by (simp add: py_int_floor)
  have big: "0 < \<lfloor>q\<rfloor>" if "1 \<le> q"
  proof -
    have "1 \<le> \<lfloor>q\<rfloor>" using that by (simp add: le_floor_iff)
    then show ?thesis by linarith
  qed
  have small: "\<lfloor>q\<rfloor> = 0" if "q < 1"
    using that q(2) by (simp add: floor_eq_iff)
  have v: "cross_correlation truediv env_dt S bin dt meth =
      (if cols S = 0 then Inl IndexError else Inr (spec_cross_correlation S (nat \<lfloor>q\<rfloor>)))"
    if "1 \<le> q"
    by (rule cross_correlation_value [where truediv = truediv and bin = bin and ?dt1.0 = dt1,
          OF dt nz r big [OF that] m])
  show ?thesis
  proof (intro conjI impI)
    assume "1 \<le> q \<and> 0 < cols S"
    then show "cross_correlation truediv env_dt S bin dt meth =
        Inr (spec_cross_correlation S (nat \<lfloor>q\<rfloor>))"
      using v by simp
  next
    assume "1 \<le> q \<and> cols S = 0"
    then show "cross_correlation truediv env_dt S bin dt meth = Inl IndexError"
      using v by simp
  next
    assume "q < 1"
    from small [OF this] show "cross_correlation truediv env_dt S bin dt meth = Inl ZeroDivisionError"
      using nz by (simp add: cross_correlation_def dt r Let_def)
  qed
qed

lemma ex_num_bins: "spec_num_bins ex_spikes 2 = 2"
  by (simp add: spec_num_bins_def ex_spikes_def)

lemma lessThan2: "{..<2::nat} = {0, 1}" by auto

lemma ex_binned: "spec_binned ex_spikes 2 0 0 = 1" "spec_binned ex_spikes 2 0 (Suc 0) = 1"
  "spec_binned ex_spikes 2 (Suc 0) 0 = 0" "spec_binned ex_spikes 2 (Suc 0) (Suc 0) = 1"
  by (simp_all add: spec_binned_def spec_padded_def ex_spikes_def lessThan2)

lemma ex_pair_value: "spec_pair_value ex_spikes 2 (Suc 0) 0 = 1 / sqrt 2"
  by (simp add: spec_pair_value_def ex_num_bins lessThan2 ex_binned)

lemma ex_pairs: "spec_pairs 2 = {(1, 0)}"
  by (auto simp: spec_pairs_def)

lemma ex_spec: "spec_cross_correlation ex_spikes 2 = Fin (1 / sqrt 2)"
proof -
  have "cols ex_spikes = 2" by (simp add: ex_spikes_def)
  then show ?thesis
    by (simp add: spec_cross_correlation_def ex_pairs ex_pair_value)
qed

lemma ex_cols: "cols ex_spikes = 2"
  by (simp add: ex_spikes_def)

text \<open>Instances of C1: three time steps, two neurons, bins of two steps; the same
  recording without its neurons; and a bin shorter than the time step.\<close>

theorem cross_correlation_algorithm_witness:
  "cross_correlation exact_quotient 1 ex_spikes 2 None ''loop'' = Inr (Fin (1 / sqrt 2)) \<and>
   cross_correlation exact_quotient 1 (jnp_zeros 3 0) 2 None ''vmap'' = Inl IndexError \<and>
   cross_correlation exact_quotient 1 ex_spikes (1/2) None ''loop'' = Inl ZeroDivisionError"
  using cross_correlation_algorithm [where dt = None and env_dt = 1 and ?dt1.0 = 1 and bin = 2
      and meth = "''loop''" and S = ex_spikes and truediv = exact_quotient and q = 2]
    cross_correlation_algorithm [where dt = None and env_dt = 1 and ?dt1.0 = 1 and bin = 2
      and meth = "''vmap''" and S = "jnp_zeros 3 0" and truediv = exact_quotient and q = 2]
    cross_correlation_algorithm [where dt = None and env_dt = 1 and ?dt1.0 = 1 and bin = "1/2"
      and meth = "''loop''" and S = ex_spikes and truediv = exact_quotient and q = "1/2"]
  by (simp add: ex_spec ex_cols exact_quotient_def jnp_zeros_def)

text \<open>C1 as stated fails: \<open>bin = 1\<close> and \<open>dt = 2\<close> are positive, yet no mean is returned;
  and a recording of three time steps without neurons is refused.\<close>

theorem cross_correlation_small_bin_counterexample:
  "cross_correlation exact_quotient 1 ex_spikes 1 (Some 2) ''loop'' = Inl ZeroDivisionError \<and>
   cross_correlation exact_quotient 1 (jnp_zeros 3 0) 1 None ''loop'' = Inl IndexError"
  by (simp add: cross_correlation_cases exact_quotient_def jnp_zeros_def)

lemma loop_f_silent:
  "sum_list (row states i) = 0 \<or> sum_list (row states j) = 0 \<Longrightarrow> loop_f states (i, j) = Fin 0"
  by (auto simp: loop_f_def)

lemma spec_binned_all_zero:
  assumes "\<forall>t<rows S. \<forall>n<cols S. el2 S t n = 0" and "i < cols S"
  shows "spec_binned S bs i t = 0"
proof -
  have "spec_padded S u i = 0" for u
    using assms by (simp add: spec_padded_def)
  then show ?thesis by (simp add: spec_binned_def)
qed

lemma spec_pair_value_all_zero:
  assumes "\<forall>t<rows S. \<forall>n<cols S. el2 S t n = 0" and "i < cols S"
  shows "spec_pair_value S bs i j = 0"
  by (simp add: spec_pair_value_def spec_binned_all_zero [OF assms])

lemma finite_spec_pairs: "finite (spec_pairs N)"
  by (simp add: spec_pairs_def)

lemma card_spec_pairs_pos: "2 \<le> N \<Longrightarrow> 0 < card (spec_pairs N)"
proof -
  assume "2 \<le> N"
  then have "(1, 0) \<in> spec_pairs N" by (simp add: spec_pairs_def)
  then show ?thesis using finite_spec_pairs [of N] by (auto simp: card_gt_0_iff)
qed

lemma spec_cross_correlation_all_zero:
  assumes z: "\<forall>t<rows S. \<forall>n<cols S. el2 S t n = 0" and N: "2 \<le> cols S"
  shows "spec_cross_correlation S bs = Fin 0"
proof -
  have "(\<Sum>(i, j)\<in>spec_pairs (cols S). spec_pair_value S bs i j) = 0"
    by (rule sum.neutral) (auto simp: spec_pairs_def spec_pair_value_all_zero [OF z])
  then show ?thesis
    using card_spec_pairs_pos [OF N] by (simp add: spec_cross_correlation_def)
qed

text \<open>
  C2 (as amended). A pair in which one neuron has no binned spike contributes exactly
  \<open>Fin 0\<close> under both strategies; on the binned activity every pair value is a finite
  number (never not-a-number); and for every all-zero spike matrix with at least two
  neurons and a bin of at least one time step (the floating-point quotient \<^verbatim>\<open>bin / dt\<close>
  is a finite \<open>q \<ge> 1\<close>, as it is whenever \<open>bin \<ge> dt > 0\<close> and nothing overflows),
  \<open>cross_correlation\<close> returns \<open>0\<close>.
\<close>

theorem silent_pairs_contribute_zero:
  "(sum_list (row states i) = 0 \<or> sum_list (row states j) = 0 \<longrightarrow>
      loop_f states (i, j) = Fin 0 \<and> vmap_cc states (i, j) = Fin 0) \<and>
   (0 < bs \<longrightarrow>
      loop_f (binned_states S bs) (i, j) = Fin (spec_pair_value S bs i j) \<and>
      vmap_cc (binned_states S bs) (i, j) = Fin (spec_pair_value S bs i j)) \<and>
   ((\<forall>t<rows S. \<forall>n<cols S. el2 S t n = 0) \<and> 2 \<le> cols S \<and>
    (case dt of None \<Rightarrow> env_dt | Some d \<Rightarrow> d) = dt1 \<and> dt1 \<noteq> 0 \<and>
    truediv bin dt1 = Fin q \<and> 1 \<le> q \<and>
    (meth = ''loop'' \<or> meth = ''vmap'') \<longrightarrow>
      cross_correlation truediv env_dt S bin dt meth = Inr (Fin 0))"
proof (intro conjI impI)
  assume "sum_list (row states i) = 0 \<or> sum_list (row states j) = 0"
  then show "loop_f states (i, j) = Fin 0" by (rule loop_f_silent)
  then show "vmap_cc states (i, j) = Fin 0" by (simp add: loop_f_vmap_cc)
next
  assume "0 < bs"
  then show "loop_f (binned_states S bs) (i, j) = Fin (spec_pair_value S bs i j)"
    by (rule loop_f_binned)
  then show "vmap_cc (binned_states S bs) (i, j) = Fin (spec_pair_value S bs i j)"
    by (simp add: loop_f_vmap_cc)
next
  assume a: "(\<forall>t<rows S. \<forall>n<cols S. el2 S t n = 0) \<and> 2 \<le> cols S \<and>
    (case dt of None \<Rightarrow> env_dt | Some d \<Rightarrow> d) = dt1 \<and> dt1 \<noteq> 0 \<and>
    truediv bin dt1 = Fin q \<and> 1 \<le> q \<and>
    (meth = ''loop'' \<or> meth = ''vmap'')"
  then have "py_int (truediv bin dt1) = Inr \<lfloor>q\<rfloor>" by (simp add: py_int_floor)
  moreover have "1 \<le> \<lfloor>q\<rfloor>" using a by (simp add: le_floor_iff)
  then have "0 < \<lfloor>q\<rfloor>" by linarith
  ultimately have "cross_correlation truediv env_dt S bin dt meth =
      (if cols S = 0 then Inl IndexError else Inr (spec_cross_correlation S (nat \<lfloor>q\<rfloor>)))"
    using a by (intro cross_correlation_value) auto
  then show "cross_correlation truediv env_dt S bin dt meth = Inr (Fin 0)"
    using a by (simp add: spec_cross_correlation_all_zero)
qed

lemma upt2: "[0..<2] = [0, Suc 0]"
  by (simp add: upt_rec)

text \<open>Instances of C2: a silent pair, a pair of the example recording, and an all-zero
  recording of two neurons.\<close>

theorem silent_pairs_contribute_zero_witness:
  "loop_f (jnp_zeros 2 2) (1, 0) = Fin 0 \<and>
   loop_f (binned_states ex_spikes 2) (1, 0) = Fin (1 / sqrt 2) \<and>
   cross_correlation exact_quotient 1 (jnp_zeros 3 2) 1 None ''vmap'' = Inr (Fin 0)"
  using silent_pairs_contribute_zero [where states = "jnp_zeros 2 2" and i = 1 and j = 0
      and bs = 2 and S = ex_spikes]
    silent_pairs_contribute_zero [where S = "jnp_zeros 3 2" and dt = None and env_dt = 1
      and ?dt1.0 = 1 and bin = 1 and meth = "''vmap''" and truediv = exact_quotient and q = 1]
  by (simp add: row_def jnp_zeros_def upt2 ex_pair_value exact_quotient_def)

text \<open>C2 as stated fails: an all-zero recording of a single neuron has no pair, and the
  mean of no values is not-a-number, not \<open>0\<close>.\<close>

theorem single_neuron_all_zero_counterexample:
  "cross_correlation exact_quotient 1 (jnp_zeros 3 1) 1 None ''loop'' = Inr NaN"
proof -
  have "spec_pairs 1 = {}" by (auto simp: spec_pairs_def)
  then show ?thesis
    by (simp add: cross_correlation_cases exact_quotient_def spec_cross_correlation_def
        jnp_zeros_def)
qed

text \<open>
  C7. For every spike matrix and every permutation \<open>p\<close> of its neuron columns,
  \<open>cross_correlation\<close> of the relabelled matrix equals \<open>cross_correlation\<close> of the
  matrix (the same value in exact arithmetic, or the same failure).
\<close>

theorem cross_correlation_permutation_invariant:
  assumes "bij_betw p {..<cols S} {..<cols S}"
  shows "cross_correlation truediv env_dt (permute_neurons p S) bin dt meth =
         cross_correlation truediv env_dt S bin dt meth"
  using assms by (rule cross_correlation_permute)

text \<open>An instance of C7: the two neurons of the example recording exchanged.\<close>

theorem cross_correlation_permutation_invariant_witness:
  "bij_betw (\<lambda>i. 1 - i) {..<cols ex_spikes} {..<cols ex_spikes} \<and>
   cross_correlation exact_quotient 1 (permute_neurons (\<lambda>i. 1 - i) ex_spikes) 2 None ''loop'' =
     Inr (Fin (1 / sqrt 2))"
proof -
  have b: "bij_betw (\<lambda>i. 1 - i) {..<cols ex_spikes} {..<cols ex_spikes}"
    by (auto simp: bij_betw_def inj_on_def ex_spikes_def lessThan2)
  have "cross_correlation exact_quotient 1 ex_spikes 2 None ''loop'' = Inr (Fin (1 / sqrt 2))"
    by (simp add: cross_correlation_cases exact_quotient_def ex_spec ex_cols)
  then show ?thesis
    using b cross_correlation_permutation_invariant [OF b, of exact_quotient 1 2 None "''loop''"]
    by simp
qed

subsection \<open>weighted\_correlation\<close>

lemma map2_replicate_right: "length x = n \<Longrightarrow> map2 f x (replicate n c) = map (\<lambda>a. f a c) x"
  by (induction x arbitrary: n) auto

lemma map2_replicate_left: "length x = n \<Longrightarrow> map2 f (replicate n c) x = map (f c) x"
  by (induction x arbitrary: n) auto

lemma sum_list_times_const:
  fixes c :: real
  shows "(\<Sum>a\<leftarrow>xs. g a * c) = sum_list (map g xs) * c"
  by (induction xs) (simp_all add: algebra_simps)

lemma sum_list_const_times:
  fixes c :: real
  shows "(\<Sum>a\<leftarrow>xs. c * g a) = c * sum_list (map g xs)"
  by (induction xs) (simp_all add: algebra_simps)

lemma map2_Fin_zip:
  "map2 fmul (map (\<lambda>a. Fin (g a)) x) (map (\<lambda>b. Fin (h b)) y) = map (\<lambda>(a, b). Fin (g a * h b)) (zip x y)"
  by (induction x arbitrary: y) (auto simp: zip_Cons1 split: list.splits)

lemma fsum_Fin_pairs: "fsum (map (\<lambda>(a, b). Fin (g a b)) ps) = Fin (\<Sum>(a, b)\<leftarrow>ps. g a b)"
  by (induction ps) auto

lemma sum_list_pairs_const:
  fixes c :: real
  shows "(\<Sum>(a, b)\<leftarrow>ps. c * g a * h b) = c * (\<Sum>(a, b)\<leftarrow>ps. g a * h b)"
  by (induction ps) (auto simp: algebra_simps)

lemma sum_list_pairs_zero:
  fixes g :: "'a \<Rightarrow> 'b \<Rightarrow> real"
  shows "\<forall>(a, b)\<in>set ps. g a b = 0 \<Longrightarrow> (\<Sum>(a, b)\<leftarrow>ps. g a b) = 0"
  by (induction ps) auto

lemma sum_list_zip_swap:
  fixes g :: "'a \<Rightarrow> 'b \<Rightarrow> real"
  shows "length x = length y \<Longrightarrow> (\<Sum>(a, b)\<leftarrow>zip y x. g a b) = (\<Sum>(a, b)\<leftarrow>zip x y. g b a)"
  by (induction x y rule: list_induct2) auto

lemma weighted_mean_uniform:
  assumes n: "x \<noteq> []" and c: "0 < c"
  shows "weighted_mean x (replicate (length x) c) = Inr (Fin (sum_list x / real (length x)))"
proof -
  have "sum_list (map (\<lambda>a. a * c) x) = sum_list x * c"
    using sum_list_times_const [of "\<lambda>a. a" c x] by simp
  moreover have "real (length x) * c \<noteq> 0" using n c by simp
  ultimately show ?thesis
    using c by (simp add: weighted_mean_def broadcast2_def map2_replicate_right sum_list_replicate)
qed

lemma weighted_cov_uniform:
  assumes n: "x \<noteq> []" and l: "length y = length x" and c: "0 < c"
  shows "weighted_cov x y (replicate (length x) c) = Inr (Fin (codev x y / real (length x)))"
proof -
  define mx where "mx = sum_list x / real (length x)"
  define my where "my = sum_list y / real (length y)"
  have y: "y \<noteq> []" using n l by auto
  have wmx: "weighted_mean x (replicate (length x) c) = Inr (Fin mx)"
    unfolding mx_def using n c by (rule weighted_mean_uniform)
  have wmy: "weighted_mean y (replicate (length x) c) = Inr (Fin my)"
    unfolding my_def using weighted_mean_uniform [OF y c] by (simp add: l)
  have b1: "broadcast2 fmul (map Fin (replicate (length x) c)) (map (\<lambda>a. fsub (Fin a) (Fin mx)) x)
      = Inr (map (\<lambda>a. Fin (c * (a - mx))) x)"
    by (simp add: broadcast2_def map2_replicate_left fsub_def)
  have b2: "broadcast2 fmul (map (\<lambda>a. Fin (c * (a - mx))) x) (map (\<lambda>b. fsub (Fin b) (Fin my)) y)
      = Inr (map (\<lambda>(a, b). Fin (c * (a - mx) * (b - my))) (zip x y))"
    using map2_Fin_zip [of "\<lambda>a. c * (a - mx)" x "\<lambda>b. b - my" y]
    by (simp add: broadcast2_def l fsub_def)
  have s: "fsum (map (\<lambda>(a, b). Fin (c * (a - mx) * (b - my))) (zip x y)) = Fin (c * codev x y)"
    unfolding fsum_Fin_pairs sum_list_pairs_const codev_def mx_def my_def by (rule refl)
  have "real (length x) * c \<noteq> 0" using n c by simp
  then show ?thesis
    unfolding weighted_cov_def wmx wmy ebind_Inr b1 b2 s
    by (simp add: sum_list_replicate)
qed

lemma codev_same: "codev x x = (\<Sum>a\<leftarrow>x. (a - sum_list x / real (length x)) * (a - sum_list x / real (length x)))"
  by (simp add: codev_def zip_same_conv_map comp_def)

lemma codev_same_nonneg: "0 \<le> codev x x"
  unfolding codev_same by (rule sum_list_nonneg) auto

lemma codev_zero_left:
  assumes "codev x x = 0"
  shows "codev x y = 0"
proof -
  let ?m = "sum_list x / real (length x)"
  have "\<forall>v\<in>set (map (\<lambda>a. (a - ?m) * (a - ?m)) x). v = 0"
    using assms unfolding codev_same
    by (subst (asm) sum_list_nonneg_eq_0_iff) auto
  then have z: "a = ?m" if "a \<in> set x" for a using that by auto
  show ?thesis
    unfolding codev_def
    by (rule sum_list_pairs_zero) (auto dest: set_zip_leftD z)
qed

lemma codev_commute: "length x = length y \<Longrightarrow> codev x y = codev y x"
  by (simp add: codev_def sum_list_zip_swap [of x y] mult.commute)

lemma pearson_codev: "pearson x y = fdiv (Fin (codev x y)) (fsqrt (Fin (codev x x * codev y y)))"
  unfolding pearson_def Let_def codev_same codev_def by (rule refl)

lemma weighted_correlation_uniform:
  assumes l: "length x = length y" and c: "0 < c"
  shows "weighted_correlation (Vector x) (Vector y) (Vector (replicate (length x) c)) = Inr (pearson x y)"
proof (cases "x = []")
  case True
  then have "y = []" using l by simp
  with True show ?thesis
    by (simp add: weighted_cov_def weighted_mean_def broadcast2_def pearson_def)
next
  case False
  then have y: "y \<noteq> []" using l by auto
  define n where "n = real (length x)"
  have n: "0 < n" using False by (simp add: n_def)
  have cxy: "weighted_cov x y (replicate (length x) c) = Inr (Fin (codev x y / n))"
    unfolding n_def using False l c by (intro weighted_cov_uniform) auto
  have cxx: "weighted_cov x x (replicate (length x) c) = Inr (Fin (codev x x / n))"
    unfolding n_def using False c by (intro weighted_cov_uniform) auto
  have cyy: "weighted_cov y y (replicate (length x) c) = Inr (Fin (codev y y / n))"
    unfolding n_def l using y c by (intro weighted_cov_uniform) auto
  define D where "D = codev x x * codev y y"
  have D: "0 \<le> D" unfolding D_def by (intro mult_nonneg_nonneg codev_same_nonneg)
  have prod: "codev x x / n * (codev y y / n) = D / (n * n)" by (simp add: D_def)
  have sq: "sqrt (D / (n * n)) = sqrt D / n"
    using n by (simp add: real_sqrt_divide real_sqrt_mult)
  have nn: "\<not> D / (n * n) < 0" using D n by (simp add: not_less)
  have "weighted_correlation (Vector x) (Vector y) (Vector (replicate (length x) c))
      = Inr (fdiv (Fin (codev x y / n)) (fsqrt (fmul (Fin (codev x x / n)) (Fin (codev y y / n)))))"
    by (simp only: weighted_correlation.simps cxy cxx cyy ebind_Inr)
  also have "fmul (Fin (codev x x / n)) (Fin (codev y y / n)) = Fin (D / (n * n))"
    by (simp only: fmul.simps prod)
  also have "fsqrt (Fin (D / (n * n))) = Fin (sqrt D / n)"
    by (simp only: fsqrt.simps nn if_False sq)
  finally have lhs: "weighted_correlation (Vector x) (Vector y) (Vector (replicate (length x) c))
      = Inr (fdiv (Fin (codev x y / n)) (Fin (sqrt D / n)))" .
  have rhs: "pearson x y = fdiv (Fin (codev x y)) (Fin (sqrt D))"
    using D by (simp add: pearson_codev D_def)
  show ?thesis
  proof (cases "D = 0")
    case True
    then have "codev x x = 0 \<or> codev y y = 0" by (simp add: D_def)
    then have "codev x y = 0"
      using codev_zero_left [of x y] codev_zero_left [of y x] codev_commute [OF l] by auto
    then show ?thesis unfolding lhs rhs using True by simp
  next
    case False
    then have "sqrt D \<noteq> 0" by simp
    then show ?thesis unfolding lhs rhs using n by simp
  qed
qed

text \<open>
  C5. The function compares no lengths: it checks the rank of each argument, and a shape
  error can only come from an elementwise operation. A weight vector of length one is
  repeated along \<open>x\<close> in \<^verbatim>\<open>x * w\<close> but counted once in \<^verbatim>\<open>jnp.sum(w)\<close>, so the weighted
  mean is the plain sum: for \<open>x = [0, 1]\<close>, \<open>y = [1, 0]\<close> and \<open>w = [1]\<close> the function
  returns \<open>0\<close> without raising, where the same series with the weights \<open>[1, 1]\<close> have
  the correlation \<open>- 1\<close>; the lengths three, three and two are refused.
\<close>

theorem weighted_correlation_short_weight_accepted:
  "weighted_correlation (Vector [0, 1]) (Vector [1, 0]) (Vector [1]) = Inr (Fin 0) \<and>
   weighted_correlation (Vector [0, 1]) (Vector [1, 0]) (Vector [1, 1]) = Inr (Fin (- 1)) \<and>
   weighted_correlation (Vector [1, 2, 3]) (Vector [1, 2, 4]) (Vector [1, 1]) =
     Inl IncompatibleShapes"
proof -
  have "sqrt (1 / 16) = 1 / 4"
    by (rule real_sqrt_unique) (simp_all add: power2_eq_square)
  then show ?thesis
    by (simp add: weighted_cov_def weighted_mean_def broadcast2_def fsub_def)
qed

text \<open>
  C6. For two vectors of equal length and a constant positive weight vector of the same
  length, \<open>weighted_correlation\<close> is the unweighted Pearson correlation coefficient (in
  exact arithmetic; both are not-a-number when a series is constant or empty).
\<close>

theorem weighted_correlation_uniform_is_pearson:
  assumes "length x = length y" and "0 < c"
  shows "weighted_correlation (Vector x) (Vector y) (Vector (replicate (length x) c)) =
         Inr (pearson x y)"
  using assms by (rule weighted_correlation_uniform)

lemma pearson_example: "pearson [1, 2, 3] [1, 3, 2] = Fin (1 / 2)"
  by (simp add: pearson_def)

text \<open>An instance of C6: three points, every weight \<open>2\<close>.\<close>

theorem weighted_correlation_uniform_is_pearson_witness:
  "length [1, 2, 3 :: real] = length [1, 3, 2 :: real] \<and> (0::real) < 2 \<and>
   weighted_correlation (Vector [1, 2, 3]) (Vector [1, 3, 2]) (Vector [2, 2, 2]) =
   Inr (Fin (1 / 2))"
  using weighted_correlation_uniform_is_pearson [of "[1, 2, 3]" "[1, 3, 2]" 2]
  by (simp add: pearson_example)

subsection \<open>Schedulers\<close>

text \<open>
  C9. For every scheduler variant and every step (given, or defaulted to the tracked
  index plus one), \<open>call\<close> returns the scheduler as it was: \<open>last_epoch\<close>, \<open>last_call\<close> and
  every other field are unchanged, whether a rate is returned or the call is refused.
  The outcome at a given step does not depend on the counters.
\<close>

theorem evaluate_leaves_state_unchanged:
  "snd (call s i) = s \<and>
   fst (call (with_counters e c s) (Some k)) = fst (call s (Some k))"
  by (cases s) (simp_all add: step_or_def Let_def)

text \<open>The model computes the specification's examples of the schedules; a counter at
  the largest 32-bit value wraps around; \<open>T_mult = 2\<close> is refused at every call.\<close>

lemma step_lr_example:
  "fst (call (StepLR 1 (- 1) 10 (1 / 2)) (Some 25)) = Inr (Fin (1 / 4))"
  by (simp add: step_or_def int32_of_py_def power2_eq_square)

lemma multi_step_example:
  "fst (call (MultiStepLR 1 (- 1) [- 1, 30, 80, 2147483647] (1 / 10)) (Some 50)) =
   Inr (Fin (1 / 10))"
  by (simp add: step_or_def argmax_bool_def)

lemma step_call_counts:
  "last_call (step_call ex_piecewise) = 0"
  "fst (call (step_call (step_call ex_piecewise)) None) = Inr (Fin (1 / 10))"
  by (simp_all add: ex_piecewise_def step_or_def)

lemma step_epoch_wraps:
  "sint (last_epoch (step_epoch (ConstantLR l 2147483647))) = - 2147483648"
  by simp

lemma warm_restarts_T_mult:
  "fst (call (CosineAnnealingWarmRestarts l e c n 10 2 em) i) = Inl TypeError"
  by (simp add: int32_of_py_def lax_cond_def)

text \<open>
  C10. On the epoch-based variants (Constant, Step, MultiStep, CosineAnnealing,
  Exponential) \<open>step_call\<close> returns the scheduler unchanged.
\<close>

theorem step_call_noop_on_epoch_based:
  "step_call (ConstantLR l e) = ConstantLR l e \<and>
   step_call (StepLR l e ss g) = StepLR l e ss g \<and>
   step_call (MultiStepLR l e ms g) = MultiStepLR l e ms g \<and>
   step_call (CosineAnnealingLR l e tm em) = CosineAnnealingLR l e tm em \<and>
   step_call (ExponentialLR l e g) = ExponentialLR l e g"
  by simp

lemma sint_int32:
  "- 2147483648 \<le> k \<Longrightarrow> k \<le> 2147483647 \<Longrightarrow> sint (word_of_int k :: int32) = k"
  by (simp add: sint_sbintrunc' signed_take_bit_int_eq_self)

lemma next_int32:
  assumes "- 2147483648 \<le> k" "k \<le> 2147483647"
  shows "sint (word_of_int k + 1 :: int32) = (if k = 2147483647 then - 2147483648 else k + 1)"
proof (cases "k = 2147483647")
  case True
  then show ?thesis by simp
next
  case False
  then have "sint (word_of_int (k + 1) :: int32) = k + 1"
    using assms by (intro sint_int32) auto
  then show ?thesis using False by simp
qed

lemma PiecewiseConstantLR_init_cases:
  "PiecewiseConstantLR_init (Vector bs) (Vector vs) le lc =
     (if le < - 1 then Inl AssertionError
      else if 2147483647 < le then Inl OverflowError
      else if lc < - 1 then Inl AssertionError
      else if 2147483647 < lc then Inl OverflowError
      else if int (length bs) = int (length vs) - 1
           then Inr (PiecewiseConstantLR 0 (word_of_int le) (word_of_int lc) bs vs)
      else Inl ValueError)"
  by (auto simp: PiecewiseConstantLR_init_def CallBasedLRScheduler_init_def
      LearningRateScheduler_init_def int32_of_py_def)

lemma piecewise_call:
  assumes "int (length bs) = int (length vs) - 1"
  shows "length (filter P bs) < length vs"
    and "fst (call (PiecewiseConstantLR l e c bs vs) (Some i)) =
         Inr (Fin (vs ! length (filter (\<lambda>b. b < real_of_int (sint i)) bs)))"
    and "fst (call (PiecewiseConstantLR l e c bs vs) None) =
         Inr (Fin (vs ! length (filter (\<lambda>b. b < real_of_int (sint (c + 1))) bs)))"
proof -
  have k: "length (filter P bs) < length vs" for P
    using assms length_filter_le [of P bs] by linarith
  then show "length (filter P bs) < length vs" .
  have ne: "vs \<noteq> []" using assms by auto
  have m: "min (length (filter P bs)) (length vs - 1) = length (filter P bs)" for P
    using k [of P] by simp
  show "fst (call (PiecewiseConstantLR l e c bs vs) (Some i)) =
         Inr (Fin (vs ! length (filter (\<lambda>b. b < real_of_int (sint i)) bs)))"
    using ne m [of "\<lambda>b. b < real_of_int (sint i)"] by (simp add: step_or_def)
  show "fst (call (PiecewiseConstantLR l e c bs vs) None) =
         Inr (Fin (vs ! length (filter (\<lambda>b. b < real_of_int (sint (c + 1))) bs)))"
    using ne m [of "\<lambda>b. b < real_of_int (sint (c + 1))"] by (simp add: step_or_def)
qed

text \<open>
  C4. A \<open>PiecewiseConstantLR\<close> built from boundaries one shorter than values returns, at
  every step \<open>i\<close> within 32 bits, \<open>values[k]\<close> with \<open>k\<close> the number of boundaries strictly
  below \<open>i\<close> (and \<open>k\<close> is a valid index). Without a step it uses \<open>last_call + 1\<close> in
  32-bit arithmetic: \<open>last_call + 1\<close> below the largest 32-bit integer, and the smallest
  one at it. Construction with any other pair of lengths fails, with \<open>ValueError\<close> when
  the counters pass the base classes' checks (at least \<open>- 1\<close>, within 32 bits); with
  matching lengths and such counters it succeeds.
\<close>

theorem piecewise_constant_rate:
  "(PiecewiseConstantLR_init (Vector bs) (Vector vs) le lc = Inr s \<longrightarrow>
      (- 2147483648 \<le> i \<and> i \<le> 2147483647 \<longrightarrow>
         length (filter (\<lambda>b. b < real_of_int i) bs) < length vs \<and>
         fst (call s (Some (word_of_int i))) =
           Inr (Fin (vs ! length (filter (\<lambda>b. b < real_of_int i) bs)))) \<and>
      fst (call s None) =
        Inr (Fin (vs ! length (filter (\<lambda>b. b < real_of_int
               (if lc = 2147483647 then - 2147483648 else lc + 1)) bs)))) \<and>
   (int (length bs) \<noteq> int (length vs) - 1 \<longrightarrow>
      (\<exists>err. PiecewiseConstantLR_init (Vector bs) (Vector vs) le lc = Inl err)) \<and>
   (- 1 \<le> le \<and> le \<le> 2147483647 \<and> - 1 \<le> lc \<and> lc \<le> 2147483647 \<and>
    int (length bs) \<noteq> int (length vs) - 1 \<longrightarrow>
      PiecewiseConstantLR_init (Vector bs) (Vector vs) le lc = Inl ValueError) \<and>
   (- 1 \<le> le \<and> le \<le> 2147483647 \<and> - 1 \<le> lc \<and> lc \<le> 2147483647 \<and>
    int (length bs) = int (length vs) - 1 \<longrightarrow>
      PiecewiseConstantLR_init (Vector bs) (Vector vs) le lc =
      Inr (PiecewiseConstantLR 0 (word_of_int le) (word_of_int lc) bs vs))"
proof (intro conjI impI)
  assume a: "PiecewiseConstantLR_init (Vector bs) (Vector vs) le lc = Inr s"
  then have l: "int (length bs) = int (length vs) - 1"
    and s: "s = PiecewiseConstantLR 0 (word_of_int le) (word_of_int lc) bs vs"
    and lc: "- 1 \<le> lc" "lc \<le> 2147483647"
    by (auto simp: PiecewiseConstantLR_init_cases split: if_splits)
  show "length (filter (\<lambda>b. b < real_of_int i) bs) < length vs"
    by (rule piecewise_call(1) [OF l])
  show "fst (call s None) =
        Inr (Fin (vs ! length (filter (\<lambda>b. b < real_of_int
               (if lc = 2147483647 then - 2147483648 else lc + 1)) bs)))"
    unfolding s using lc by (simp only: piecewise_call(3) [OF l] next_int32)
  assume "- 2147483648 \<le> i \<and> i \<le> 2147483647"
  then have "sint (word_of_int i :: int32) = i" by (simp add: sint_int32)
  then show "fst (call s (Some (word_of_int i))) =
      Inr (Fin (vs ! length (filter (\<lambda>b. b < real_of_int i) bs)))"
    unfolding s by (simp only: piecewise_call(2) [OF l])
qed (auto simp: PiecewiseConstantLR_init_cases)

text \<open>The specification's example of C4: boundaries \<open>[10, 20]\<close> and values
  \<open>[0.1, 0.01, 0.001]\<close> at the steps 5, 15 and 25; the default step of a scheduler whose
  call counter is the largest 32-bit integer; and a refused construction.\<close>

theorem piecewise_constant_rate_witness:
  "PiecewiseConstantLR_init (Vector [10, 20]) (Vector [1 / 10, 1 / 100, 1 / 1000]) (- 1) (- 1) =
     Inr ex_piecewise \<and>
   fst (call ex_piecewise (Some 5)) = Inr (Fin (1 / 10)) \<and>
   fst (call ex_piecewise (Some 15)) = Inr (Fin (1 / 100)) \<and>
   fst (call ex_piecewise (Some 25)) = Inr (Fin (1 / 1000)) \<and>
   fst (call (PiecewiseConstantLR 0 (- 1) 2147483647 [10, 20] [1 / 10, 1 / 100, 1 / 1000]) None) =
     Inr (Fin (1 / 10)) \<and>
   PiecewiseConstantLR_init (Vector [10, 20]) (Vector [1 / 10, 1 / 100]) (- 1) (- 1) =
     Inl ValueError"
proof -
  let ?bs = "[10, 20] :: real list"
  let ?vs = "[1 / 10, 1 / 100, 1 / 1000] :: real list"
  let ?top = "PiecewiseConstantLR 0 (- 1) 2147483647 ?bs ?vs"
  have init: "PiecewiseConstantLR_init (Vector ?bs) (Vector ?vs) (- 1) (- 1) = Inr ex_piecewise"
    using piecewise_constant_rate [of ?bs ?vs "- 1" "- 1" ex_piecewise 0]
    by (simp add: ex_piecewise_def)
  have top: "PiecewiseConstantLR_init (Vector ?bs) (Vector ?vs) (- 1) 2147483647 = Inr ?top"
    using piecewise_constant_rate [of ?bs ?vs "- 1" 2147483647 ?top 0] by simp
  have "fst (call ex_piecewise (Some 5)) = Inr (Fin (1 / 10))"
    using piecewise_constant_rate [of ?bs ?vs "- 1" "- 1" ex_piecewise 5] init by simp
  moreover have "fst (call ex_piecewise (Some 15)) = Inr (Fin (1 / 100))"
    using piecewise_constant_rate [of ?bs ?vs "- 1" "- 1" ex_piecewise 15] init by simp
  moreover have "fst (call ex_piecewise (Some 25)) = Inr (Fin (1 / 1000))"
    using piecewise_constant_rate [of ?bs ?vs "- 1" "- 1" ex_piecewise 25] init by simp
  moreover have "fst (call ?top None) = Inr (Fin (1 / 10))"
    using piecewise_constant_rate [of ?bs ?vs "- 1" 2147483647 ?top 0] top by simp
  moreover have "PiecewiseConstantLR_init (Vector ?bs) (Vector [1 / 10, 1 / 100]) (- 1) (- 1) =
     Inl ValueError"
    using piecewise_constant_rate [of ?bs "[1 / 10, 1 / 100]" "- 1" "- 1" ex_piecewise 0] by simp
  ultimately show ?thesis using init by simp
qed

end
